theory Spec2Isabelle
  imports Complex_Main
begin

section \<open>Remote collaborators: profile rows, sessions and errors\<close>

text \<open>
  The application (\<^verbatim>\<open>App.tsx\<close>) talks to a remote backend through the
  \<^verbatim>\<open>supabase\<close> client: a \<^verbatim>\<open>profiles\<close> table and an authentication provider.
  Every call returns an object \<^verbatim>\<open>{ data, error }\<close>; none of them throws.
\<close>

text \<open>
  Modelled from the spec: the \<^verbatim>\<open>User\<close> type (\<^verbatim>\<open>types.ts\<close> is not among the
  sources): the columns of a \<^verbatim>\<open>profiles\<close> row that the fallback insert writes, with
  the two roles of the data model.
\<close>

datatype role = Admin | Staff

record user =
  user_id :: string
  user_email :: string
  user_name :: string
  user_role :: role

text \<open>The authentication subject (\<^verbatim>\<open>SupabaseUser\<close>): its \<^verbatim>\<open>email\<close> is optional.\<close>

record supabase_user =
  su_id :: string
  su_email :: "string option"

record session =
  access_token :: string
  session_user :: supabase_user

record pg_error =
  code :: string
  message :: string

text \<open>The object literal passed to \<^verbatim>\<open>.insert(...)\<close> by the fallback path.\<close>

record profile_insert =
  ins_id :: string
  ins_email :: "string option"
  ins_name :: string
  ins_role :: role

type_synonym 'r reply = "'r option \<times> pg_error option"

subsection \<open>JavaScript string helpers\<close>

text \<open>\<^verbatim>\<open>s.includes(sub)\<close>: \<^verbatim>\<open>sub\<close> occurs in \<^verbatim>\<open>s\<close> as a contiguous substring.\<close>

fun starts_with :: "string \<Rightarrow> string \<Rightarrow> bool" where
  "starts_with s [] = True"
| "starts_with [] (c # cs) = False"
| "starts_with (x # xs) (c # cs) = (x = c \<and> starts_with xs cs)"

fun str_includes :: "string \<Rightarrow> string \<Rightarrow> bool" where
  "str_includes [] sub = starts_with [] sub"
| "str_includes (x # xs) sub = (starts_with (x # xs) sub \<or> str_includes xs sub)"

text \<open>
  \<^verbatim>\<open>email.split('@')[0]\<close>: the part of the string before the first \<^verbatim>\<open>@\<close>
  (the whole string when there is none).
\<close>

definition split_at_first :: "string \<Rightarrow> string" where
  "split_at_first s = takeWhile (\<lambda>c. c \<noteq> CHR ''@'') s"

section \<open>Application state and what is rendered\<close>

record app_state =
  session :: "session option"
  currentUser :: "user option"
  isAuthLoading :: bool
  needsDbSetup :: bool
  loginMessage :: "string option"

text \<open>The initial values of the authentication \<^verbatim>\<open>useState\<close> hooks of \<^verbatim>\<open>App\<close>.\<close>

definition initial_app :: app_state where
  "initial_app = \<lparr> session = None, currentUser = None, isAuthLoading = True,
     needsDbSetup = False, loginMessage = None \<rparr>"

datatype screen = SplashScreen | DatabaseSetup | LoginPage "string option" | MainApp

text \<open>
  The chain of early returns in the body of \<^verbatim>\<open>App\<close>, in the source's order.
  \<^verbatim>\<open>isLocalDataLoading\<close> is the disjunction of the loading flags of the local-storage
  hooks; the bootstrap neither reads nor writes it, so it is an argument here.
\<close>

definition render :: "bool \<Rightarrow> app_state \<Rightarrow> screen" where
  "render isLocalDataLoading st =
     (if isAuthLoading st \<or> isLocalDataLoading then SplashScreen
      else if needsDbSetup st then DatabaseSetup
      else if session st = None \<or> currentUser st = None then LoginPage (loginMessage st)
      else MainApp)"

datatype action =
    SetSession "session option"
  | SetCurrentUser "user option"
  | SetIsAuthLoading bool
  | SetNeedsDbSetup bool
  | SetLoginMessage "string option"

fun apply_action :: "action \<Rightarrow> app_state \<Rightarrow> app_state" where
  "apply_action (SetSession s) st = st\<lparr>session := s\<rparr>"
| "apply_action (SetCurrentUser u) st = st\<lparr>currentUser := u\<rparr>"
| "apply_action (SetIsAuthLoading b) st = st\<lparr>isAuthLoading := b\<rparr>"
| "apply_action (SetNeedsDbSetup b) st = st\<lparr>needsDbSetup := b\<rparr>"
| "apply_action (SetLoginMessage m) st = st\<lparr>loginMessage := m\<rparr>"

section \<open>Asynchronous functions as resumable tasks\<close>

text \<open>
  An \<^verbatim>\<open>async\<close> function is a tree: it returns, performs a state setter and goes on,
  or issues a remote request and suspends (\<^verbatim>\<open>await\<close>) until the reply arrives, which
  its continuation receives. One constructor per remote call keeps the reply typed.
\<close>

datatype request =
    ProbeProfiles
  | GetSession
  | SelectProfile string
  | InsertProfile profile_insert
  | SignOut

datatype 'a task =
    Return 'a
  | Set action "'a task"
  | AwaitProbe "pg_error option \<Rightarrow> 'a task"
  | AwaitGetSession "session option \<Rightarrow> 'a task"
  | AwaitSelect string "user reply \<Rightarrow> 'a task"
  | AwaitInsert profile_insert "user reply \<Rightarrow> 'a task"
  | AwaitSignOut "pg_error option \<Rightarrow> 'a task"

subsection \<open>\<^verbatim>\<open>getOrCreateUserProfile\<close>\<close>

definition fallbackName :: "supabase_user \<Rightarrow> string" where
  "fallbackName u =
     (case su_email u of
        None \<Rightarrow> ''New User''
      | Some e \<Rightarrow> (if split_at_first e = [] then ''New User'' else split_at_first e))"

definition getOrCreateUserProfile :: "supabase_user \<Rightarrow> (user option \<Rightarrow> 'a task) \<Rightarrow> 'a task" where
  "getOrCreateUserProfile u k =
     AwaitSelect (su_id u) (\<lambda>(profile, error).
       case profile of
         Some p \<Rightarrow> k (Some p)
       | None \<Rightarrow>
           if (case error of None \<Rightarrow> False | Some e \<Rightarrow> code e \<noteq> ''PGRST116'') then k None
           else
             AwaitInsert \<lparr> ins_id = su_id u, ins_email = su_email u,
                           ins_name = fallbackName u, ins_role = Staff \<rparr>
               (\<lambda>(newProfile, insertError).
                  if insertError \<noteq> None then k None else k newProfile))"

subsection \<open>\<^verbatim>\<open>initializeApp\<close> and the auth listener\<close>

definition profile_failed_message :: string where
  "profile_failed_message =
     ''Your user profile could not be loaded or created. Please contact support.''"

definition is_missing_relation :: "pg_error \<Rightarrow> bool" where
  "is_missing_relation e = (code e = ''42P01'' \<or> str_includes (message e) ''does not exist'')"

definition initializeApp :: "unit task" where
  "initializeApp =
     AwaitProbe (\<lambda>dbError.
       if (case dbError of None \<Rightarrow> False | Some e \<Rightarrow> is_missing_relation e) then
         Set (SetNeedsDbSetup True) (Set (SetIsAuthLoading False) (Return ()))
       else
         AwaitGetSession (\<lambda>s.
           case s of
             Some sess \<Rightarrow>
               getOrCreateUserProfile (session_user sess) (\<lambda>userProfile.
                 case userProfile of
                   Some p \<Rightarrow>
                     Set (SetSession (Some sess)) (Set (SetCurrentUser (Some p))
                       (Set (SetIsAuthLoading False) (Return ())))
                 | None \<Rightarrow>
                     Set (SetLoginMessage (Some profile_failed_message))
                       (AwaitSignOut (\<lambda>_.
                          Set (SetSession None) (Set (SetCurrentUser None)
                            (Set (SetIsAuthLoading False) (Return ()))))))
           | None \<Rightarrow>
               Set (SetSession None) (Set (SetCurrentUser None)
                 (Set (SetIsAuthLoading False) (Return ())))))"

text \<open>The callback registered with \<^verbatim>\<open>supabase.auth.onAuthStateChange\<close>.\<close>

definition onAuthStateChange :: "session option \<Rightarrow> unit task" where
  "onAuthStateChange s =
     Set (SetSession s)
       (case s of
          Some sess \<Rightarrow>
            getOrCreateUserProfile (session_user sess) (\<lambda>userProfile.
              Set (SetCurrentUser userProfile) (Return ()))
        | None \<Rightarrow> Set (SetCurrentUser None) (Return ()))"

section \<open>The backend and the event loop\<close>

text \<open>
  The backend is the remote collaborator. Its \<^verbatim>\<open>profiles\<close> table follows the schema
  of \<^verbatim>\<open>SETUP_SQL\<close> (primary key \<^verbatim>\<open>id\<close>, \<^verbatim>\<open>email\<close> not null); the fault fields
  make a call fail for a reason of the backend's own (network, permissions).
\<close>

record backend =
  probe_error :: "pg_error option"
  auth_session :: "session option"
  profiles :: "user list"
  select_fault :: "pg_error option"
  insert_fault :: "pg_error option"
  signout_error :: "pg_error option"

definition no_rows :: pg_error where
  "no_rows = \<lparr> code = ''PGRST116'', message = ''JSON object requested, multiple (or no) rows returned'' \<rparr>"

text \<open>\<^verbatim>\<open>.select('*').eq('id', uid).single()\<close>: exactly one row, or an error.\<close>

definition select_single :: "backend \<Rightarrow> string \<Rightarrow> user reply" where
  "select_single be uid =
     (case select_fault be of
        Some e \<Rightarrow> (None, Some e)
      | None \<Rightarrow>
          (case filter (\<lambda>r. user_id r = uid) (profiles be) of
             [r] \<Rightarrow> (Some r, None)
           | _ \<Rightarrow> (None, Some no_rows)))"

text \<open>\<^verbatim>\<open>.insert(row).select().single()\<close>: the stored row comes back.\<close>

definition insert_single :: "backend \<Rightarrow> profile_insert \<Rightarrow> user reply \<times> backend" where
  "insert_single be p =
     (case insert_fault be of
        Some e \<Rightarrow> ((None, Some e), be)
      | None \<Rightarrow>
          (case ins_email p of
             None \<Rightarrow> ((None, Some \<lparr> code = ''23502'', message = ''null value in column email'' \<rparr>), be)
           | Some e \<Rightarrow>
               if ins_id p \<in> set (map user_id (profiles be)) then
                 ((None, Some \<lparr> code = ''23505'', message = ''duplicate key value'' \<rparr>), be)
               else
                 (let row = \<lparr> user_id = ins_id p, user_email = e,
                               user_name = ins_name p, user_role = ins_role p \<rparr>
                  in ((Some row, None), be\<lparr>profiles := profiles be @ [row]\<rparr>))))"

datatype event = Called request | Resolved request | Did action | Subscribed

record 'a outcome =
  trace :: "event list"
  app :: app_state
  remote :: backend
  result :: 'a

definition emit :: "event list \<Rightarrow> 'a outcome \<Rightarrow> 'a outcome" where
  "emit es r = r\<lparr>trace := es @ trace r\<rparr>"

text \<open>
  Running a task to completion against the backend: each \<^verbatim>\<open>await\<close> issues its
  request, the reply arrives, the continuation goes on.
\<close>

primrec exec :: "'a task \<Rightarrow> backend \<Rightarrow> app_state \<Rightarrow> 'a outcome" where
  "exec (Return v) be st = \<lparr> trace = [], app = st, remote = be, result = v \<rparr>"
| "exec (Set a t) be st = emit [Did a] (exec t be (apply_action a st))"
| "exec (AwaitProbe k) be st =
     emit [Called ProbeProfiles, Resolved ProbeProfiles] (exec (k (probe_error be)) be st)"
| "exec (AwaitGetSession k) be st =
     emit [Called GetSession, Resolved GetSession] (exec (k (auth_session be)) be st)"
| "exec (AwaitSelect uid k) be st =
     emit [Called (SelectProfile uid), Resolved (SelectProfile uid)]
       (exec (k (select_single be uid)) be st)"
| "exec (AwaitInsert p k) be st =
     emit [Called (InsertProfile p), Resolved (InsertProfile p)]
       (exec (k (fst (insert_single be p))) (snd (insert_single be p)) st)"
| "exec (AwaitSignOut k) be st =
     emit [Called SignOut, Resolved SignOut]
       (exec (k (signout_error be)) (be\<lparr>auth_session := None\<rparr>) st)"

text \<open>
  Identity resolution on its own: \<^verbatim>\<open>getOrCreateUserProfile(u)\<close> run to completion.
  It calls no state setter, so the application state it starts from does not matter.
\<close>

definition resolveIdentity :: "backend \<Rightarrow> supabase_user \<Rightarrow> user option outcome" where
  "resolveIdentity be u = exec (getOrCreateUserProfile u Return) be initial_app"

text \<open>
  Calling an \<^verbatim>\<open>async\<close> function without awaiting it runs its body up to the first
  \<^verbatim>\<open>await\<close>: the request is issued and the caller goes on with its next
  statement, while the rest of the body waits for the reply.
\<close>

primrec run_sync :: "'a task \<Rightarrow> app_state \<Rightarrow> event list \<times> app_state \<times> 'a task" where
  "run_sync (Return v) st = ([], st, Return v)"
| "run_sync (Set a t) st =
     (case run_sync t (apply_action a st) of (es, st', t') \<Rightarrow> (Did a # es, st', t'))"
| "run_sync (AwaitProbe k) st = ([Called ProbeProfiles], st, AwaitProbe k)"
| "run_sync (AwaitGetSession k) st = ([Called GetSession], st, AwaitGetSession k)"
| "run_sync (AwaitSelect uid k) st = ([Called (SelectProfile uid)], st, AwaitSelect uid k)"
| "run_sync (AwaitInsert p k) st = ([Called (InsertProfile p)], st, AwaitInsert p k)"
| "run_sync (AwaitSignOut k) st = ([Called SignOut], st, AwaitSignOut k)"

text \<open>The event loop delivers the reply to a suspended task, which then runs on.\<close>

definition resume :: "'a task \<Rightarrow> backend \<Rightarrow> app_state \<Rightarrow> 'a outcome" where
  "resume t be st =
     (case t of
        AwaitProbe k \<Rightarrow> emit [Resolved ProbeProfiles] (exec (k (probe_error be)) be st)
      | AwaitGetSession k \<Rightarrow> emit [Resolved GetSession] (exec (k (auth_session be)) be st)
      | AwaitSelect uid k \<Rightarrow>
          emit [Resolved (SelectProfile uid)] (exec (k (select_single be uid)) be st)
      | AwaitInsert p k \<Rightarrow>
          emit [Resolved (InsertProfile p)]
            (exec (k (fst (insert_single be p))) (snd (insert_single be p)) st)
      | AwaitSignOut k \<Rightarrow>
          emit [Resolved SignOut] (exec (k (signout_error be)) (be\<lparr>auth_session := None\<rparr>) st)
      | _ \<Rightarrow> exec t be st)"

text \<open>
  The body of the mount effect of \<^verbatim>\<open>App\<close>: \<^verbatim>\<open>initializeApp()\<close> is called and
  not awaited, then \<^verbatim>\<open>supabase.auth.onAuthStateChange(...)\<close> installs the listener and
  the effect returns; the pending rest of \<^verbatim>\<open>initializeApp\<close> runs from the event loop.
  No notification is delivered while it runs.
\<close>

definition useEffect_mount :: "backend \<Rightarrow> app_state \<Rightarrow> unit outcome" where
  "useEffect_mount be st =
     (case run_sync initializeApp st of
        (es, st1, pending) \<Rightarrow> emit (es @ [Subscribed]) (resume pending be st1))"

text \<open>\<^verbatim>\<open>a\<close> occurs in the trace and \<^verbatim>\<open>b\<close> occurs after its first occurrence.\<close>

definition precedes :: "event \<Rightarrow> event \<Rightarrow> event list \<Rightarrow> bool" where
  "precedes a b es = (b \<in> set (dropWhile (\<lambda>e. e \<noteq> a) es))"

fun is_insert_call :: "event \<Rightarrow> bool" where
  "is_insert_call (Called (InsertProfile p)) = True"
| "is_insert_call e = False"

fun is_remote_call :: "event \<Rightarrow> bool" where
  "is_remote_call (Called r) = True"
| "is_remote_call e = False"

text \<open>
  The condition under which \<^verbatim>\<open>initializeApp\<close> goes past the schema probe: no error,
  or an error that is not of the missing-relation class.
\<close>

definition probe_ok :: "backend \<Rightarrow> bool" where
  "probe_ok be = (case probe_error be of None \<Rightarrow> True | Some e \<Rightarrow> \<not> is_missing_relation e)"

text \<open>The row that the fallback path of \<^verbatim>\<open>getOrCreateUserProfile\<close> inserts.\<close>

definition fallback_row :: "supabase_user \<Rightarrow> profile_insert" where
  "fallback_row u = \<lparr> ins_id = su_id u, ins_email = su_email u,
                        ins_name = fallbackName u, ins_role = Staff \<rparr>"

subsection \<open>Concrete backends\<close>

definition alice :: supabase_user where
  "alice = \<lparr> su_id = ''u-1'', su_email = Some ''alice@example.com'' \<rparr>"

definition nameless :: supabase_user where
  "nameless = \<lparr> su_id = ''u-2'', su_email = Some ''@example.com'' \<rparr>"

definition alice_session :: session where
  "alice_session = \<lparr> access_token = ''jwt'', session_user = alice \<rparr>"

definition alice_row :: user where
  "alice_row = \<lparr> user_id = ''u-1'', user_email = ''alice@example.com'',
                   user_name = ''Alice'', user_role = Admin \<rparr>"

definition missing_table :: pg_error where
  "missing_table = \<lparr> code = ''42P01'', message = ''relation public.profiles does not exist'' \<rparr>"

definition denied :: pg_error where
  "denied = \<lparr> code = ''42501'', message = ''new row violates row-level security policy'' \<rparr>"

definition be_signed_out :: backend where
  "be_signed_out = \<lparr> probe_error = None, auth_session = None, profiles = [],
     select_fault = None, insert_fault = None, signout_error = None \<rparr>"

definition be_unprovisioned :: backend where
  "be_unprovisioned = be_signed_out\<lparr>probe_error := Some missing_table\<rparr>"

definition be_with_profile :: backend where
  "be_with_profile = be_signed_out\<lparr>auth_session := Some alice_session, profiles := [alice_row]\<rparr>"

definition be_orphan_session :: backend where
  "be_orphan_session = be_signed_out\<lparr>auth_session := Some alice_session\<rparr>"

definition be_insert_denied :: backend where
  "be_insert_denied = be_signed_out\<lparr>auth_session := Some alice_session, insert_fault := Some denied\<rparr>"

section \<open>JavaScript dates\<close>

subsection \<open>Day numbers and calendar fields\<close>

text \<open>
  A \<^verbatim>\<open>Date\<close> holds a time value: milliseconds since 1970-01-01T00:00:00Z, or NaN
  for an invalid date (\<^verbatim>\<open>None\<close> here). The calendar arithmetic is that of the language
  standard: \<^verbatim>\<open>DaysInYear\<close>, \<^verbatim>\<open>DayFromYear\<close>, \<^verbatim>\<open>YearFromTime\<close>,
  \<^verbatim>\<open>MonthFromTime\<close>, \<^verbatim>\<open>DateFromTime\<close>, \<^verbatim>\<open>MakeDay\<close>, on day numbers.
  Months count from 0, as \<^verbatim>\<open>getMonth()\<close> does.
\<close>

definition msPerDay :: int where
  "msPerDay = 86400000"

definition DaysInYear :: "int \<Rightarrow> int" where
  "DaysInYear y =
     (if y mod 4 \<noteq> 0 then 365
      else if y mod 100 \<noteq> 0 then 366
      else if y mod 400 \<noteq> 0 then 365
      else 366)"

definition DayFromYear :: "int \<Rightarrow> int" where
  "DayFromYear y = 365 * (y - 1970) + (y - 1969) div 4 - (y - 1901) div 100 + (y - 1601) div 400"

text \<open>
  The standard defines the year of a day as the largest \<^verbatim>\<open>y\<close> with
  \<^verbatim>\<open>DayFromYear(y) \<le> d\<close>. It is computed by a search downwards from an upper bound
  (a year has at least 365 days, at most 366), which stops at the latest at a lower bound.
\<close>

function year_down :: "int \<Rightarrow> int \<Rightarrow> int \<Rightarrow> int" where
  "year_down d lo y = (if y \<le> lo \<or> DayFromYear y \<le> d then y else year_down d lo (y - 1))"
  by pat_completeness auto
termination
  by (relation "measure (\<lambda>(d, lo, y). nat (y - lo))") auto

definition YearFromDay :: "int \<Rightarrow> int" where
  "YearFromDay d =
     year_down d (1970 + (if 0 \<le> d then d div 366 else d div 365))
                 (1970 + (if 0 \<le> d then d div 365 else d div 366))"

definition first_day_of_month :: "int \<Rightarrow> int \<Rightarrow> int" where
  "first_day_of_month leap m =
     (if m = 0 then 0 else if m = 1 then 31 else if m = 2 then 59 + leap
      else if m = 3 then 90 + leap else if m = 4 then 120 + leap
      else if m = 5 then 151 + leap else if m = 6 then 181 + leap
      else if m = 7 then 212 + leap else if m = 8 then 243 + leap
      else if m = 9 then 273 + leap else if m = 10 then 304 + leap
      else 334 + leap)"

definition InLeapYear :: "int \<Rightarrow> int" where
  "InLeapYear y = (if DaysInYear y = 366 then 1 else 0)"

definition MonthFromDay :: "int \<Rightarrow> int" where
  "MonthFromDay d =
     (let y = YearFromDay d; w = d - DayFromYear y; leap = InLeapYear y
      in if w < 31 then 0 else if w < 59 + leap then 1 else if w < 90 + leap then 2
         else if w < 120 + leap then 3 else if w < 151 + leap then 4
         else if w < 181 + leap then 5 else if w < 212 + leap then 6
         else if w < 243 + leap then 7 else if w < 273 + leap then 8
         else if w < 304 + leap then 9 else if w < 334 + leap then 10 else 11)"

definition DateFromDay :: "int \<Rightarrow> int" where
  "DateFromDay d =
     (let y = YearFromDay d
      in d - DayFromYear y - first_day_of_month (InLeapYear y) (MonthFromDay d) + 1)"

definition MakeDay :: "int \<Rightarrow> int \<Rightarrow> int \<Rightarrow> int" where
  "MakeDay year month date =
     (let ym = year + month div 12; mn = month mod 12
      in DayFromYear ym + first_day_of_month (InLeapYear ym) mn + date - 1)"


subsection \<open>Numbers and strings\<close>

text \<open>
  ASCII digits, the decimal digits of a number (\<^verbatim>\<open>String(n)\<close> and template literals),
  and \<^verbatim>\<open>padStart\<close>.
\<close>

definition is_digit :: "char \<Rightarrow> bool" where
  "is_digit c = (48 \<le> (of_char c :: nat) \<and> (of_char c :: nat) \<le> 57)"

definition digit_val :: "char \<Rightarrow> int" where
  "digit_val c = int (of_char c) - 48"

definition digit_char :: "nat \<Rightarrow> char" where
  "digit_char n = char_of (48 + n)"

fun number_from :: "int \<Rightarrow> string \<Rightarrow> int option" where
  "number_from acc [] = Some acc"
| "number_from acc (c # cs) =
     (if is_digit c then number_from (10 * acc + digit_val c) cs else None)"

fun digits :: "nat \<Rightarrow> string" where
  "digits n = (if n < 10 then [digit_char n] else digits (n div 10) @ [digit_char (n mod 10)])"

declare digits.simps [simp del]

definition js_String :: "int option \<Rightarrow> string" where
  "js_String v =
     (case v of
        None \<Rightarrow> ''NaN''
      | Some i \<Rightarrow> (if i < 0 then CHR ''-'' # digits (nat (- i)) else digits (nat i)))"

definition padStart :: "nat \<Rightarrow> char \<Rightarrow> string \<Rightarrow> string" where
  "padStart n c s = replicate (n - length s) c @ s"

subsection \<open>Parsing and reading dates\<close>

text \<open>
  \<^verbatim>\<open>new Date(s)\<close> on the two forms of the date-time string format that the
  components build: the date-only form \<^verbatim>\<open>YYYY-MM-DD\<close>, which is read as UTC, and
  \<^verbatim>\<open>YYYY-MM-DDTHH:mm:ss\<close> with no offset, which is read as local time. A day of the
  month up to 31 is accepted and carried over by \<^verbatim>\<open>MakeDay\<close>. What an engine does with
  any other string is implementation-defined; here it is an invalid date.

  The viewer's time zone is \<^verbatim>\<open>tz\<close>, the minutes that local time is ahead of UTC
  (\<^verbatim>\<open>- getTimezoneOffset()\<close>), taken as constant.
\<close>

definition msPerMinute :: int where
  "msPerMinute = 60000"

definition parse_ymd :: "string \<Rightarrow> (int \<times> int \<times> int) option" where
  "parse_ymd s =
     (if length s = 10 \<and> s ! 4 = CHR ''-'' \<and> s ! 7 = CHR ''-'' then
        (case number_from 0 (take 4 s) of
           None \<Rightarrow> None
         | Some y \<Rightarrow>
             (case number_from 0 (take 2 (drop 5 s)) of
                None \<Rightarrow> None
              | Some m \<Rightarrow>
                  (case number_from 0 (drop 8 s) of
                     None \<Rightarrow> None
                   | Some d \<Rightarrow>
                       if 1 \<le> m \<and> m \<le> 12 \<and> 1 \<le> d \<and> d \<le> 31 then Some (y, m, d)
                       else None)))
      else None)"

definition parse_hms :: "string \<Rightarrow> int option" where
  "parse_hms s =
     (if length s = 8 \<and> s ! 2 = CHR '':'' \<and> s ! 5 = CHR '':'' then
        (case number_from 0 (take 2 s) of
           None \<Rightarrow> None
         | Some h \<Rightarrow>
             (case number_from 0 (take 2 (drop 3 s)) of
                None \<Rightarrow> None
              | Some mi \<Rightarrow>
                  (case number_from 0 (drop 6 s) of
                     None \<Rightarrow> None
                   | Some sec \<Rightarrow>
                       if h \<le> 23 \<and> mi \<le> 59 \<and> sec \<le> 59
                       then Some (h * 3600000 + mi * 60000 + sec * 1000)
                       else None)))
      else None)"

definition Date_parse :: "int \<Rightarrow> string \<Rightarrow> int option" where
  "Date_parse tz s =
     (if length s = 10 then
        (case parse_ymd s of
           None \<Rightarrow> None
         | Some (y, m, d) \<Rightarrow> Some (MakeDay y (m - 1) d * msPerDay))
      else if length s = 19 \<and> s ! 10 = CHR ''T'' then
        (case parse_ymd (take 10 s) of
           None \<Rightarrow> None
         | Some (y, m, d) \<Rightarrow>
             (case parse_hms (drop 11 s) of
                None \<Rightarrow> None
              | Some t \<Rightarrow> Some (MakeDay y (m - 1) d * msPerDay + t - tz * msPerMinute)))
      else None)"

definition Day :: "int \<Rightarrow> int" where
  "Day t = t div msPerDay"

definition LocalTime :: "int \<Rightarrow> int \<Rightarrow> int" where
  "LocalTime tz t = t + tz * msPerMinute"

definition getFullYear :: "int \<Rightarrow> int option \<Rightarrow> int option" where
  "getFullYear tz D = map_option (\<lambda>t. YearFromDay (Day (LocalTime tz t))) D"

definition getMonth :: "int \<Rightarrow> int option \<Rightarrow> int option" where
  "getMonth tz D = map_option (\<lambda>t. MonthFromDay (Day (LocalTime tz t))) D"

text \<open>
  \<^verbatim>\<open>toISOString()\<close> of a valid date: the UTC fields, the year on four digits, or
  signed on six outside 0..9999.
\<close>

definition pad :: "nat \<Rightarrow> int \<Rightarrow> string" where
  "pad w n = padStart w (CHR ''0'') (digits (nat n))"

definition toISOString :: "int \<Rightarrow> string" where
  "toISOString t =
     (let y = YearFromDay (Day t);
          ys = (if 0 \<le> y \<and> y \<le> 9999 then pad 4 y
                else if y < 0 then CHR ''-'' # pad 6 (- y) else CHR ''+'' # pad 6 y)
      in ys @ ''-'' @ pad 2 (MonthFromDay (Day t) + 1) @ ''-'' @ pad 2 (DateFromDay (Day t))
         @ ''T'' @ pad 2 (t mod msPerDay div 3600000) @ '':''
         @ pad 2 (t mod 3600000 div 60000) @ '':'' @ pad 2 (t mod 60000 div 1000)
         @ ''.'' @ pad 3 (t mod 1000) @ ''Z'')"

section \<open>The aggregation engine\<close>

text \<open>
  Modelled from the spec: the \<^verbatim>\<open>Invoice\<close> type (\<^verbatim>\<open>types.ts\<close> is not among the
  sources). The fields are those the two dashboards read. JavaScript numbers are taken as
  exact: quantities are integers, prices rationals.
\<close>

record line_item =
  quantity :: int
  price :: rat

record invoice =
  inv_id :: string
  issueDate :: string
  billTo_name :: string
  lineItems :: "line_item list"

text \<open>
  \<^verbatim>\<open>ReportItem\<close> and \<^verbatim>\<open>ReportRow\<close> of \<^verbatim>\<open>ReportsDashboard\<close>. A
  \<^verbatim>\<open>Set<string>\<close> is a list without repetitions in insertion order; its size is the
  length.
\<close>

record ReportItem =
  customers :: "string list"
  invoiceCount :: nat
  totalBilled :: rat

record ReportRow = ReportItem +
  date :: string
  uniqueCustomers :: nat

definition invoiceTotal :: "invoice \<Rightarrow> rat" where
  "invoiceTotal invoice =
     foldl (\<lambda>acc item. acc + of_int (quantity item) * price item) 0 (lineItems invoice)"

definition set_add :: "string \<Rightarrow> string list \<Rightarrow> string list" where
  "set_add x xs = (if x \<in> set xs then xs else xs @ [x])"

text \<open>
  The \<^verbatim>\<open>Map<string, ReportItem>\<close> is an association list in insertion order.
  \<^verbatim>\<open>record_invoice\<close> is the body of the loop for one of the two maps: create the
  entry if the key is new, then add the customer, count the invoice and add its total.
\<close>

definition count_invoice :: "string \<Rightarrow> rat \<Rightarrow> ReportItem \<Rightarrow> ReportItem" where
  "count_invoice name amount r =
     r\<lparr> customers := set_add name (customers r),
        invoiceCount := invoiceCount r + 1,
        totalBilled := totalBilled r + amount \<rparr>"

fun record_invoice ::
  "string \<Rightarrow> string \<Rightarrow> rat \<Rightarrow> (string \<times> ReportItem) list \<Rightarrow> (string \<times> ReportItem) list" where
  "record_invoice k name amount [] =
     [(k, count_invoice name amount \<lparr> customers = [], invoiceCount = 0, totalBilled = 0 \<rparr>)]"
| "record_invoice k name amount ((k', r) # m) =
     (if k' = k then (k', count_invoice name amount r) # m
      else (k', r) # record_invoice k name amount m)"

text \<open>
  The month key of an invoice: the issue date at local midnight, its local year and its
  local month on two digits. An invalid date gives \<^verbatim>\<open>NaN-NaN\<close>.
\<close>

definition monthKey :: "int \<Rightarrow> invoice \<Rightarrow> string" where
  "monthKey tz invoice =
     (let issue = Date_parse tz (issueDate invoice @ ''T00:00:00'')
      in js_String (getFullYear tz issue) @ ''-''
         @ padStart 2 (CHR ''0'') (js_String (map_option (\<lambda>m. m + 1) (getMonth tz issue))))"

definition add_invoice ::
  "int \<Rightarrow> (string \<times> ReportItem) list \<times> (string \<times> ReportItem) list \<Rightarrow> invoice
     \<Rightarrow> (string \<times> ReportItem) list \<times> (string \<times> ReportItem) list" where
  "add_invoice tz maps invoice =
     (record_invoice (issueDate invoice) (billTo_name invoice) (invoiceTotal invoice) (fst maps),
      record_invoice (monthKey tz invoice) (billTo_name invoice) (invoiceTotal invoice) (snd maps))"

definition to_row :: "string \<times> ReportItem \<Rightarrow> ReportRow" where
  "to_row e =
     \<lparr> customers = customers (snd e), invoiceCount = invoiceCount (snd e),
       totalBilled = totalBilled (snd e), date = fst e,
       uniqueCustomers = length (customers (snd e)) \<rparr>"

text \<open>
  \<^verbatim>\<open>Array.prototype.sort\<close> with a comparator: the sort is stable, and a comparator
  that returns NaN counts as 0. It is modelled as a stable insertion sort, which every
  conforming sort agrees with when the comparator is consistent.
\<close>

definition js_minus :: "int option \<Rightarrow> int option \<Rightarrow> int option" where
  "js_minus a b = (case a of None \<Rightarrow> None | Some x \<Rightarrow> (case b of None \<Rightarrow> None | Some y \<Rightarrow> Some (x - y)))"

definition positive :: "int option \<Rightarrow> bool" where
  "positive v = (case v of None \<Rightarrow> False | Some n \<Rightarrow> 0 < n)"

fun insert_sorted :: "('a \<Rightarrow> 'a \<Rightarrow> int option) \<Rightarrow> 'a \<Rightarrow> 'a list \<Rightarrow> 'a list" where
  "insert_sorted cmp x [] = [x]"
| "insert_sorted cmp x (y # ys) =
     (if positive (cmp x y) then y # insert_sorted cmp x ys else x # y # ys)"

definition js_sort :: "('a \<Rightarrow> 'a \<Rightarrow> int option) \<Rightarrow> 'a list \<Rightarrow> 'a list" where
  "js_sort cmp xs = foldr (insert_sorted cmp) xs []"

definition compare_daily :: "int \<Rightarrow> ReportRow \<Rightarrow> ReportRow \<Rightarrow> int option" where
  "compare_daily tz a b = js_minus (Date_parse tz (date b)) (Date_parse tz (date a))"


definition report_maps ::
  "int \<Rightarrow> invoice list \<Rightarrow> (string \<times> ReportItem) list \<times> (string \<times> ReportItem) list" where
  "report_maps tz invoices = foldl (add_invoice tz) ([], []) invoices"

definition dailyReports :: "int \<Rightarrow> invoice list \<Rightarrow> ReportRow list" where
  "dailyReports tz invoices =
     js_sort (compare_daily tz) (map to_row (fst (report_maps tz invoices)))"


subsection \<open>Well-formed dates and chronological order\<close>







subsection \<open>\<^verbatim>\<open>CustomerStatsDashboard\<close>\<close>

text \<open>
  The \<^verbatim>\<open>stats\<close> of \<^verbatim>\<open>CustomerStatsDashboard\<close> for a viewer at offset
  \<^verbatim>\<open>tz\<close> and a reference instant \<^verbatim>\<open>now\<close> (the value of \<^verbatim>\<open>new Date()\<close>).
  Each issue date is read by \<^verbatim>\<open>new Date(invoice.issueDate)\<close>, the date-only form.
\<close>

record customer_counts =
  today :: nat
  thisMonth :: nat
  thisYear :: nat

definition count_customer ::
  "int \<Rightarrow> string \<Rightarrow> int \<Rightarrow> int
     \<Rightarrow> string list \<times> string list \<times> string list \<Rightarrow> invoice
     \<Rightarrow> string list \<times> string list \<times> string list" where
  "count_customer tz todayStr currentMonth currentYear sets invoice =
     (let issue = Date_parse tz (issueDate invoice);
          dailyCustomers = fst sets;
          monthlyCustomers = fst (snd sets);
          yearlyCustomers = snd (snd sets)
      in (if issueDate invoice = todayStr
            then set_add (billTo_name invoice) dailyCustomers else dailyCustomers,
          if getFullYear tz issue = Some currentYear \<and> getMonth tz issue = Some currentMonth
            then set_add (billTo_name invoice) monthlyCustomers else monthlyCustomers,
          if getFullYear tz issue = Some currentYear
            then set_add (billTo_name invoice) yearlyCustomers else yearlyCustomers))"

definition computeCustomerCounts :: "int \<Rightarrow> int \<Rightarrow> invoice list \<Rightarrow> customer_counts" where
  "computeCustomerCounts tz now invoices =
     (let todayStr = takeWhile (\<lambda>c. c \<noteq> CHR ''T'') (toISOString now);
          currentMonth = MonthFromDay (Day (LocalTime tz now));
          currentYear = YearFromDay (Day (LocalTime tz now));
          sets = foldl (count_customer tz todayStr currentMonth currentYear) ([], [], []) invoices
      in \<lparr> today = length (fst sets), thisMonth = length (fst (snd sets)),
           thisYear = length (snd (snd sets)) \<rparr>)"

subsection \<open>Concrete invoices\<close>

definition sample_invoice :: "string \<Rightarrow> string \<Rightarrow> invoice" where
  "sample_invoice d n =
     \<lparr> inv_id = d @ n, issueDate = d, billTo_name = n,
       lineItems = [\<lparr> quantity = 2, price = 10 \<rparr>] \<rparr>"




section \<open>Properties of the session bootstrap\<close>

subsection \<open>Outcomes and the event loop\<close>

lemma trace_emit [simp]: "trace (emit es r) = es @ trace r"
  and app_emit [simp]: "app (emit es r) = app r"
  and remote_emit [simp]: "remote (emit es r) = remote r"
  and result_emit [simp]: "result (emit es r) = result r"
  by (simp_all add: emit_def)

text \<open>
  Cutting a run at its first \<^verbatim>\<open>await\<close> and resuming it is the run itself: the two
  halves used by \<^const>\<open>useEffect_mount\<close> lose nothing.
\<close>

lemma exec_split:
  "exec t be st = (case run_sync t st of (es, st', t') \<Rightarrow> emit es (resume t' be st'))"
  by (induction t arbitrary: st) (auto simp: resume_def emit_def split: prod.splits)

lemma exec_resolve:
  "exec (getOrCreateUserProfile u Return) be st = (resolveIdentity be u)\<lparr>app := st\<rparr>"
  by (simp add: resolveIdentity_def getOrCreateUserProfile_def emit_def
           split: prod.splits option.splits)

lemma exec_getOrCreateUserProfile:
  "exec (getOrCreateUserProfile u k) be st =
     emit (trace (resolveIdentity be u))
       (exec (k (result (resolveIdentity be u))) (remote (resolveIdentity be u)) st)"
  by (simp add: resolveIdentity_def getOrCreateUserProfile_def emit_def
           split: prod.splits option.splits)

lemma resolve_no_signout: "Called SignOut \<notin> set (trace (resolveIdentity be u))"
  by (simp add: resolveIdentity_def getOrCreateUserProfile_def split: prod.splits option.splits)

lemma resolve_no_setter: "Did a \<notin> set (trace (resolveIdentity be u))"
  by (simp add: resolveIdentity_def getOrCreateUserProfile_def split: prod.splits option.splits)

lemma insert_single_auth [simp]: "auth_session (snd (insert_single be p)) = auth_session be"
  by (simp add: insert_single_def Let_def split: option.splits)

lemma resolve_auth_session: "auth_session (remote (resolveIdentity be u)) = auth_session be"
  by (simp add: resolveIdentity_def getOrCreateUserProfile_def split: prod.splits option.splits)

subsection \<open>Identity resolution, case by case\<close>

lemma resolve_found:
  assumes "select_single be (su_id u) = (Some row, err)"
  shows "resolveIdentity be u =
     \<lparr> trace = [Called (SelectProfile (su_id u)), Resolved (SelectProfile (su_id u))],
       app = initial_app, remote = be, result = Some row \<rparr>"
  using assms by (simp add: resolveIdentity_def getOrCreateUserProfile_def emit_def)

lemma resolve_missing:
  assumes "select_single be (su_id u) = (None, Some e)" and "code e = ''PGRST116''"
  shows "resolveIdentity be u =
     \<lparr> trace = [Called (SelectProfile (su_id u)), Resolved (SelectProfile (su_id u)),
                Called (InsertProfile (fallback_row u)), Resolved (InsertProfile (fallback_row u))],
       app = initial_app, remote = snd (insert_single be (fallback_row u)),
       result = (case fst (insert_single be (fallback_row u)) of
                   (newProfile, insertError) \<Rightarrow>
                     if insertError \<noteq> None then None else newProfile) \<rparr>"
  using assms
  by (simp add: resolveIdentity_def getOrCreateUserProfile_def emit_def fallback_row_def
        split: prod.splits)

lemma insert_single_row:
  assumes "fst (insert_single be p) = (Some row, err)"
  shows "user_id row = ins_id p \<and> user_name row = ins_name p \<and> user_role row = ins_role p
     \<and> ins_email p = Some (user_email row)"
  using assms by (auto simp: insert_single_def Let_def split: option.splits if_splits)

subsection \<open>The mount effect, case by case\<close>

lemma mount_trace_head:
  "\<exists>es. trace (useEffect_mount be st) =
     Called ProbeProfiles # Subscribed # Resolved ProbeProfiles # es"
  by (simp add: useEffect_mount_def initializeApp_def resume_def)

lemma mount_missing:
  assumes "probe_error be = Some e" and "is_missing_relation e"
  shows "useEffect_mount be st =
     \<lparr> trace = [Called ProbeProfiles, Subscribed, Resolved ProbeProfiles,
                Did (SetNeedsDbSetup True), Did (SetIsAuthLoading False)],
       app = st\<lparr>needsDbSetup := True, isAuthLoading := False\<rparr>, remote = be, result = () \<rparr>"
  using assms by (simp add: useEffect_mount_def initializeApp_def resume_def emit_def)

lemma mount_no_session:
  assumes "probe_ok be" and "auth_session be = None"
  shows "useEffect_mount be st =
     \<lparr> trace = [Called ProbeProfiles, Subscribed, Resolved ProbeProfiles,
                Called GetSession, Resolved GetSession,
                Did (SetSession None), Did (SetCurrentUser None), Did (SetIsAuthLoading False)],
       app = st\<lparr>session := None, currentUser := None, isAuthLoading := False\<rparr>,
       remote = be, result = () \<rparr>"
  using assms
  by (auto simp add: probe_ok_def useEffect_mount_def initializeApp_def resume_def emit_def
        split: option.splits)

lemma mount_resolved:
  assumes "probe_ok be" and "auth_session be = Some sess"
    and "result (resolveIdentity be (session_user sess)) = Some p"
  shows "useEffect_mount be st =
     \<lparr> trace = [Called ProbeProfiles, Subscribed, Resolved ProbeProfiles,
                Called GetSession, Resolved GetSession]
               @ trace (resolveIdentity be (session_user sess))
               @ [Did (SetSession (Some sess)), Did (SetCurrentUser (Some p)),
                  Did (SetIsAuthLoading False)],
       app = st\<lparr>session := Some sess, currentUser := Some p, isAuthLoading := False\<rparr>,
       remote = remote (resolveIdentity be (session_user sess)), result = () \<rparr>"
  using assms
  by (auto simp add: probe_ok_def useEffect_mount_def initializeApp_def resume_def emit_def
        exec_getOrCreateUserProfile split: option.splits)

lemma mount_unresolved:
  assumes "probe_ok be" and "auth_session be = Some sess"
    and "result (resolveIdentity be (session_user sess)) = None"
  shows "useEffect_mount be st =
     \<lparr> trace = [Called ProbeProfiles, Subscribed, Resolved ProbeProfiles,
                Called GetSession, Resolved GetSession]
               @ trace (resolveIdentity be (session_user sess))
               @ [Did (SetLoginMessage (Some profile_failed_message)),
                  Called SignOut, Resolved SignOut,
                  Did (SetSession None), Did (SetCurrentUser None), Did (SetIsAuthLoading False)],
       app = st\<lparr>loginMessage := Some profile_failed_message, session := None,
                 currentUser := None, isAuthLoading := False\<rparr>,
       remote = (remote (resolveIdentity be (session_user sess)))\<lparr>auth_session := None\<rparr>,
       result = () \<rparr>"
  using assms
  by (auto simp add: probe_ok_def useEffect_mount_def initializeApp_def resume_def emit_def
        exec_getOrCreateUserProfile split: option.splits)

lemma listener_outcome:
  "exec (onAuthStateChange s) be st =
     (case s of
        None \<Rightarrow>
          \<lparr> trace = [Did (SetSession None), Did (SetCurrentUser None)],
            app = st\<lparr>session := None, currentUser := None\<rparr>, remote = be, result = () \<rparr>
      | Some sess \<Rightarrow>
          \<lparr> trace = Did (SetSession (Some sess)) # trace (resolveIdentity be (session_user sess))
                @ [Did (SetCurrentUser (result (resolveIdentity be (session_user sess))))],
            app = st\<lparr>session := Some sess,
                      currentUser := result (resolveIdentity be (session_user sess))\<rparr>,
            remote = remote (resolveIdentity be (session_user sess)), result = () \<rparr>)"
  by (auto simp add: onAuthStateChange_def emit_def exec_getOrCreateUserProfile
        split: option.splits)

text \<open>Evaluation of the concrete backends.\<close>

lemma resolve_be_with_profile:
  "resolveIdentity be_with_profile alice =
     \<lparr> trace = [Called (SelectProfile ''u-1''), Resolved (SelectProfile ''u-1'')],
       app = initial_app, remote = be_with_profile, result = Some alice_row \<rparr>"
  by (rule trans [OF resolve_found [where row = alice_row and err = None]])
     (simp_all add: select_single_def be_with_profile_def be_signed_out_def alice_def alice_row_def)

lemma select_orphan:
  "select_single be_orphan_session (su_id alice) = (None, Some no_rows)"
  "select_single be_insert_denied (su_id alice) = (None, Some no_rows)"
  by (simp_all add: select_single_def be_orphan_session_def be_insert_denied_def be_signed_out_def)

lemma code_no_rows: "code no_rows = ''PGRST116''"
  by (simp add: no_rows_def)

lemma resolve_be_insert_denied: "result (resolveIdentity be_insert_denied alice) = None"
  unfolding resolve_missing [OF select_orphan(2) code_no_rows]
  by (simp add: insert_single_def be_insert_denied_def be_signed_out_def)


lemma probe_ok_concrete:
  "probe_ok be_signed_out" "probe_ok be_with_profile" "probe_ok be_orphan_session"
  "probe_ok be_insert_denied"
  by (simp_all add: probe_ok_def be_signed_out_def be_with_profile_def be_orphan_session_def
        be_insert_denied_def)

lemma auth_signed_out: "auth_session be_signed_out = None"
  by (simp add: be_signed_out_def)

lemmas mount_signed_out = mount_no_session [OF probe_ok_concrete(1) auth_signed_out]

subsection \<open>Claims about the bootstrap\<close>

text \<open>
  C1. The claim: the auth listener is installed only after the schema probe and the session
  fetch have resolved. On the code, \<^verbatim>\<open>initializeApp()\<close> is called without being awaited,
  so the listener is installed right after the probe request is issued: for a healthy backend
  with nobody signed in, the subscription comes second in the trace, before the probe resolves
  and before the session is even fetched. The probe does resolve before the session fetch.
\<close>

theorem mount_subscribes_before_probe_resolves:
  "trace (useEffect_mount be_signed_out initial_app) =
     [Called ProbeProfiles, Subscribed, Resolved ProbeProfiles,
      Called GetSession, Resolved GetSession,
      Did (SetSession None), Did (SetCurrentUser None), Did (SetIsAuthLoading False)]
   \<and> precedes Subscribed (Resolved ProbeProfiles) (trace (useEffect_mount be_signed_out initial_app))
   \<and> \<not> precedes (Resolved GetSession) Subscribed (trace (useEffect_mount be_signed_out initial_app))
   \<and> precedes (Resolved ProbeProfiles) (Called GetSession)
        (trace (useEffect_mount be_signed_out initial_app))"
  by (simp add: mount_signed_out precedes_def)

text \<open>
  C3. The main application is rendered only with a session and a resolved identity: after the
  startup sequence it is the backend's session and the identity resolved for its subject;
  after an auth notification it is the notified session and the identity resolved for it; and
  in any state at all, both are non-null.
\<close>

theorem main_app_needs_session_and_identity:
  "(render l (app (useEffect_mount be st)) = MainApp \<longrightarrow>
      (\<exists>sess p. auth_session be = Some sess
         \<and> result (resolveIdentity be (session_user sess)) = Some p
         \<and> session (app (useEffect_mount be st)) = Some sess
         \<and> currentUser (app (useEffect_mount be st)) = Some p))
   \<and> (render l (app (exec (onAuthStateChange s) be st)) = MainApp \<longrightarrow>
      (\<exists>sess p. s = Some sess
         \<and> result (resolveIdentity be (session_user sess)) = Some p
         \<and> session (app (exec (onAuthStateChange s) be st)) = Some sess
         \<and> currentUser (app (exec (onAuthStateChange s) be st)) = Some p))
   \<and> (render l st = MainApp \<longrightarrow> session st \<noteq> None \<and> currentUser st \<noteq> None)"
proof (intro conjI impI)
  assume m: "render l (app (useEffect_mount be st)) = MainApp"
  show "\<exists>sess p. auth_session be = Some sess
         \<and> result (resolveIdentity be (session_user sess)) = Some p
         \<and> session (app (useEffect_mount be st)) = Some sess
         \<and> currentUser (app (useEffect_mount be st)) = Some p"
  proof (cases "probe_ok be")
    case False
    then obtain e where "probe_error be = Some e" "is_missing_relation e"
      by (auto simp: probe_ok_def split: option.splits)
    from mount_missing [OF this] m show ?thesis
      by (simp add: render_def split: if_splits)
  next
    case True
    show ?thesis
    proof (cases "auth_session be")
      case None
      from mount_no_session [OF True None] m show ?thesis
        by (simp add: render_def split: if_splits)
    next
      case sess: (Some sess)
      show ?thesis
      proof (cases "result (resolveIdentity be (session_user sess))")
        case None
        from mount_unresolved [OF True sess None] m show ?thesis
          by (simp add: render_def split: if_splits)
      next
        case (Some p)
        from mount_resolved [OF True sess Some] Some sess show ?thesis
          by simp
      qed
    qed
  qed
next
  assume "render l (app (exec (onAuthStateChange s) be st)) = MainApp"
  then show "\<exists>sess p. s = Some sess
         \<and> result (resolveIdentity be (session_user sess)) = Some p
         \<and> session (app (exec (onAuthStateChange s) be st)) = Some sess
         \<and> currentUser (app (exec (onAuthStateChange s) be st)) = Some p"
    by (cases s) (auto simp: listener_outcome render_def split: if_splits)
next
  assume "render l st = MainApp"
  then show "session st \<noteq> None"
    by (simp add: render_def split: if_splits)
next
  assume "render l st = MainApp"
  then show "currentUser st \<noteq> None"
    by (simp add: render_def split: if_splits)
qed

theorem main_app_needs_session_and_identity_witness:
  "render False (app (useEffect_mount be_with_profile initial_app)) = MainApp
   \<and> render False (app (exec (onAuthStateChange (Some alice_session)) be_with_profile
        (app (useEffect_mount be_signed_out initial_app)))) = MainApp
   \<and> auth_session be_with_profile = Some alice_session
   \<and> result (resolveIdentity be_with_profile (session_user alice_session)) = Some alice_row
   \<and> currentUser (app (useEffect_mount be_with_profile initial_app)) = Some alice_row"
proof -
  have r: "result (resolveIdentity be_with_profile (session_user alice_session)) = Some alice_row"
    by (simp add: alice_session_def resolve_be_with_profile)
  have s: "auth_session be_with_profile = Some alice_session"
    by (simp add: be_with_profile_def be_signed_out_def)
  have a: "render False (app (useEffect_mount be_with_profile initial_app)) = MainApp"
    unfolding mount_resolved [OF probe_ok_concrete(2) s r]
    by (simp add: render_def initial_app_def)
  have b: "render False (app (exec (onAuthStateChange (Some alice_session)) be_with_profile
        (app (useEffect_mount be_signed_out initial_app)))) = MainApp"
    unfolding mount_signed_out listener_outcome
    by (simp add: r render_def initial_app_def)
  from a b r s
    main_app_needs_session_and_identity [of False be_with_profile initial_app
      "Some alice_session"]
  show ?thesis by auto
qed

text \<open>
  C4. When the schema probe fails with an error of the missing-relation class, the startup run
  sets \<^verbatim>\<open>needsDbSetup\<close>, clears the loading flag and stops: the probe is the only remote
  call of the run (no session fetch, no profile read or insert), no other state is written,
  and the setup screen is shown.
\<close>

theorem missing_schema_stops_bootstrap:
  assumes "probe_error be = Some e" and "is_missing_relation e"
  shows "trace (useEffect_mount be st) =
           [Called ProbeProfiles, Subscribed, Resolved ProbeProfiles,
            Did (SetNeedsDbSetup True), Did (SetIsAuthLoading False)]
       \<and> filter is_remote_call (trace (useEffect_mount be st)) = [Called ProbeProfiles]
       \<and> Called GetSession \<notin> set (trace (useEffect_mount be st))
       \<and> app (useEffect_mount be st) = st\<lparr>needsDbSetup := True, isAuthLoading := False\<rparr>
       \<and> remote (useEffect_mount be st) = be
       \<and> render False (app (useEffect_mount be st)) = DatabaseSetup"
  by (simp add: mount_missing [OF assms] render_def)

theorem missing_schema_stops_bootstrap_witness:
  "probe_error be_unprovisioned = Some missing_table
   \<and> is_missing_relation missing_table
   \<and> filter is_remote_call (trace (useEffect_mount be_unprovisioned initial_app))
        = [Called ProbeProfiles]
   \<and> render False (app (useEffect_mount be_unprovisioned initial_app)) = DatabaseSetup"
proof -
  have h1: "probe_error be_unprovisioned = Some missing_table"
    by (simp add: be_unprovisioned_def be_signed_out_def)
  have h2: "is_missing_relation missing_table"
    by (simp add: is_missing_relation_def missing_table_def)
  from h1 h2 missing_schema_stops_bootstrap [OF h1 h2, of initial_app]
  show ?thesis by (simp add: render_def)
qed

text \<open>
  C5. At startup with a session, a profile read that fails with "no rows" and a profile
  insert that fails, the bootstrap ends on the login page with the advisory message (the
  ordinary signed-out startup shows the login page with no message), and \<^verbatim>\<open>signOut\<close> is
  called exactly once.
\<close>

theorem unrecoverable_profile_signs_out_once:
  assumes "probe_ok be"
    and "auth_session be = Some sess"
    and "select_single be (su_id (session_user sess)) = (None, Some e)"
    and "code e = ''PGRST116''"
    and "snd (fst (insert_single be (fallback_row (session_user sess)))) \<noteq> None"
  shows "session (app (useEffect_mount be initial_app)) = None
       \<and> currentUser (app (useEffect_mount be initial_app)) = None
       \<and> loginMessage (app (useEffect_mount be initial_app)) = Some profile_failed_message
       \<and> render False (app (useEffect_mount be initial_app))
            = LoginPage (Some profile_failed_message)
       \<and> length (filter (\<lambda>x. x = Called SignOut) (trace (useEffect_mount be initial_app))) = 1
       \<and> render False (app (useEffect_mount (be\<lparr>auth_session := None\<rparr>) initial_app))
            = LoginPage None"
proof -
  have res: "result (resolveIdentity be (session_user sess)) = None"
    using assms(5)
    by (cases "fst (insert_single be (fallback_row (session_user sess)))")
       (auto simp add: resolve_missing [OF assms(3,4)])
  have tr: "trace (resolveIdentity be (session_user sess)) =
      [Called (SelectProfile (su_id (session_user sess))),
       Resolved (SelectProfile (su_id (session_user sess))),
       Called (InsertProfile (fallback_row (session_user sess))),
       Resolved (InsertProfile (fallback_row (session_user sess)))]"
    by (simp add: resolve_missing [OF assms(3,4)])
  have ok': "probe_ok (be\<lparr>auth_session := None\<rparr>)"
    using assms(1) by (simp add: probe_ok_def)
  show ?thesis
    by (simp add: mount_unresolved [OF assms(1,2) res] tr
          mount_no_session [OF ok'] render_def initial_app_def)
qed

theorem unrecoverable_profile_signs_out_once_witness:
  "probe_ok be_insert_denied
   \<and> auth_session be_insert_denied = Some alice_session
   \<and> select_single be_insert_denied (su_id (session_user alice_session)) = (None, Some no_rows)
   \<and> snd (fst (insert_single be_insert_denied (fallback_row (session_user alice_session))))
        = Some denied
   \<and> render False (app (useEffect_mount be_insert_denied initial_app))
        = LoginPage (Some profile_failed_message)
   \<and> length (filter (\<lambda>x. x = Called SignOut)
        (trace (useEffect_mount be_insert_denied initial_app))) = 1"
proof -
  have h2: "auth_session be_insert_denied = Some alice_session"
    by (simp add: be_insert_denied_def be_signed_out_def)
  have h3: "select_single be_insert_denied (su_id (session_user alice_session))
              = (None, Some no_rows)"
    by (simp add: alice_session_def select_orphan)
  have h5: "snd (fst (insert_single be_insert_denied (fallback_row (session_user alice_session))))
              = Some denied"
    by (simp add: insert_single_def be_insert_denied_def be_signed_out_def)
  have h5': "snd (fst (insert_single be_insert_denied (fallback_row (session_user alice_session))))
              \<noteq> None"
    by (simp add: h5)
  from h2 h3 h5
    unrecoverable_profile_signs_out_once [OF probe_ok_concrete(4) h2 h3 code_no_rows h5']
  show ?thesis by (simp add: probe_ok_concrete)
qed

text \<open>
  C6. The claim: when the profile read fails with the "no rows" error, identity resolution
  issues exactly one insert, and the row has role staff (never admin) and a display name equal
  to the part of the email before \<^verbatim>\<open>@\<close>, or a fixed default when the email is absent.
  The insert and the role are as stated. The name is \<^verbatim>\<open>email?.split('@')[0] || 'New User'\<close>:
  the default \<^verbatim>\<open>New User\<close> is used when the email is absent and also when the part before
  \<^verbatim>\<open>@\<close> is the empty string; otherwise the name is that part.
\<close>

theorem missing_profile_inserts_staff_row:
  assumes "select_single be (su_id u) = (None, Some e)" and "code e = ''PGRST116''"
  shows "filter is_insert_call (trace (resolveIdentity be u)) =
           [Called (InsertProfile \<lparr> ins_id = su_id u, ins_email = su_email u,
                                     ins_name = fallbackName u, ins_role = Staff \<rparr>)]
       \<and> (\<forall>row. result (resolveIdentity be u) = Some row \<longrightarrow>
             user_role row = Staff \<and> user_role row \<noteq> Admin \<and> user_id row = su_id u
             \<and> user_name row = fallbackName u)
       \<and> (su_email u = None \<longrightarrow> fallbackName u = ''New User'')
       \<and> (\<forall>m. su_email u = Some m \<and> split_at_first m = [] \<longrightarrow>
             fallbackName u = ''New User'')
       \<and> (\<forall>m. su_email u = Some m \<and> split_at_first m \<noteq> [] \<longrightarrow>
             fallbackName u = split_at_first m)"
proof -
  have a: "filter is_insert_call (trace (resolveIdentity be u))
             = [Called (InsertProfile (fallback_row u))]"
    by (simp add: resolve_missing [OF assms])
  have b: "user_role row = Staff \<and> user_role row \<noteq> Admin \<and> user_id row = su_id u
             \<and> user_name row = fallbackName u"
    if "result (resolveIdentity be u) = Some row" for row
  proof -
    from that obtain err where "fst (insert_single be (fallback_row u)) = (Some row, err)"
      by (auto simp: resolve_missing [OF assms] split: prod.splits if_splits)
    from insert_single_row [OF this] show ?thesis
      by (simp add: fallback_row_def)
  qed
  have c: "su_email u = None \<longrightarrow> fallbackName u = ''New User''"
    by (simp add: fallbackName_def)
  have d: "\<forall>m. su_email u = Some m \<and> split_at_first m = [] \<longrightarrow>
             fallbackName u = ''New User''"
    by (simp add: fallbackName_def)
  have e: "\<forall>m. su_email u = Some m \<and> split_at_first m \<noteq> [] \<longrightarrow>
             fallbackName u = split_at_first m"
    by (simp add: fallbackName_def)
  from a b c d e show ?thesis
    unfolding fallback_row_def by blast
qed

text \<open>
  The name part fails as stated: for a subject whose email is \<^verbatim>\<open>@example.com\<close>, present but
  with nothing before \<^verbatim>\<open>@\<close>, the one row inserted and returned is named
  \<^verbatim>\<open>New User\<close>, which is not the part of the email before \<^verbatim>\<open>@\<close>.
\<close>

theorem fallback_name_empty_local_part_counterexample:
  "select_single be_signed_out (su_id nameless) = (None, Some no_rows)
   \<and> code no_rows = ''PGRST116''
   \<and> su_email nameless = Some ''@example.com''
   \<and> split_at_first ''@example.com'' = []
   \<and> filter is_insert_call (trace (resolveIdentity be_signed_out nameless))
        = [Called (InsertProfile \<lparr> ins_id = ''u-2'', ins_email = Some ''@example.com'',
                                    ins_name = ''New User'', ins_role = Staff \<rparr>)]
   \<and> result (resolveIdentity be_signed_out nameless)
        = Some \<lparr> user_id = ''u-2'', user_email = ''@example.com'',
                 user_name = ''New User'', user_role = Staff \<rparr>
   \<and> ''New User'' \<noteq> split_at_first ''@example.com''"
proof -
  have s: "select_single be_signed_out (su_id nameless) = (None, Some no_rows)"
    by (simp add: select_single_def be_signed_out_def)
  have n: "fallback_row nameless
      = \<lparr> ins_id = ''u-2'', ins_email = Some ''@example.com'',
          ins_name = ''New User'', ins_role = Staff \<rparr>"
    by (simp add: fallback_row_def fallbackName_def split_at_first_def nameless_def)
  have l: "split_at_first ''@example.com'' = []"
    by (simp add: split_at_first_def)
  have m: "su_email nameless = Some ''@example.com''"
    by (simp add: nameless_def)
  have t: "filter is_insert_call (trace (resolveIdentity be_signed_out nameless))
        = [Called (InsertProfile \<lparr> ins_id = ''u-2'', ins_email = Some ''@example.com'',
                                    ins_name = ''New User'', ins_role = Staff \<rparr>)]"
    unfolding resolve_missing [OF s code_no_rows] n by simp
  have r: "result (resolveIdentity be_signed_out nameless)
        = Some \<lparr> user_id = ''u-2'', user_email = ''@example.com'',
                 user_name = ''New User'', user_role = Staff \<rparr>"
    unfolding resolve_missing [OF s code_no_rows] n
    by (simp add: insert_single_def be_signed_out_def Let_def)
  have d: "''New User'' \<noteq> split_at_first ''@example.com''"
    unfolding l by simp
  show ?thesis
    by (intro conjI) (rule s code_no_rows m l t r d)+
qed

theorem missing_profile_inserts_staff_row_witness:
  "select_single be_orphan_session (su_id alice) = (None, Some no_rows)
   \<and> code no_rows = ''PGRST116''
   \<and> result (resolveIdentity be_orphan_session alice)
        = Some \<lparr> user_id = ''u-1'', user_email = ''alice@example.com'',
                 user_name = ''alice'', user_role = Staff \<rparr>
   \<and> filter is_insert_call (trace (resolveIdentity be_orphan_session alice))
        = [Called (InsertProfile \<lparr> ins_id = ''u-1'', ins_email = Some ''alice@example.com'',
                                    ins_name = ''alice'', ins_role = Staff \<rparr>)]"
proof -
  have r: "result (resolveIdentity be_orphan_session alice)
        = Some \<lparr> user_id = ''u-1'', user_email = ''alice@example.com'',
                 user_name = ''alice'', user_role = Staff \<rparr>"
    unfolding resolve_missing [OF select_orphan(1) code_no_rows]
    by (simp add: insert_single_def be_orphan_session_def be_signed_out_def fallback_row_def
          fallbackName_def split_at_first_def alice_def Let_def)
  have n: "fallbackName alice = ''alice''" "su_id alice = ''u-1''"
    "su_email alice = Some ''alice@example.com''"
    by (simp_all add: fallbackName_def split_at_first_def alice_def)
  from missing_profile_inserts_staff_row [OF select_orphan(1) code_no_rows]
  have "filter is_insert_call (trace (resolveIdentity be_orphan_session alice)) =
           [Called (InsertProfile \<lparr> ins_id = su_id alice, ins_email = su_email alice,
                                     ins_name = fallbackName alice, ins_role = Staff \<rparr>)]"
    by (rule conjunct1)
  then have t: "filter is_insert_call (trace (resolveIdentity be_orphan_session alice))
        = [Called (InsertProfile \<lparr> ins_id = ''u-1'', ins_email = Some ''alice@example.com'',
                                    ins_name = ''alice'', ins_role = Staff \<rparr>)]"
    by (simp only: n)
  show ?thesis
    by (intro conjI) (rule select_orphan(1) code_no_rows r t)+
qed

text \<open>
  C7. For a subject whose profile row is in the table (and whose read is not failed by the
  backend), identity resolution returns that row and leaves the backend as it was; a second
  call right after returns the same row and issues no insert.
\<close>

theorem existing_profile_resolution_idempotent:
  assumes "select_fault be = None"
    and "filter (\<lambda>r. user_id r = su_id u) (profiles be) = [row]"
  shows "result (resolveIdentity be u) = Some row
       \<and> remote (resolveIdentity be u) = be
       \<and> result (resolveIdentity (remote (resolveIdentity be u)) u) = Some row
       \<and> filter is_insert_call (trace (resolveIdentity (remote (resolveIdentity be u)) u)) = []"
proof -
  have s: "select_single be (su_id u) = (Some row, None)"
    using assms by (simp add: select_single_def)
  show ?thesis
    by (simp add: resolve_found [OF s])
qed

theorem existing_profile_resolution_idempotent_witness:
  "select_fault be_with_profile = None
   \<and> filter (\<lambda>r. user_id r = su_id alice) (profiles be_with_profile) = [alice_row]
   \<and> result (resolveIdentity be_with_profile alice) = Some alice_row
   \<and> result (resolveIdentity (remote (resolveIdentity be_with_profile alice)) alice)
        = Some alice_row
   \<and> filter is_insert_call
        (trace (resolveIdentity (remote (resolveIdentity be_with_profile alice)) alice)) = []"
proof -
  have h1: "select_fault be_with_profile = None"
    by (simp add: be_with_profile_def be_signed_out_def)
  have h2: "filter (\<lambda>r. user_id r = su_id alice) (profiles be_with_profile) = [alice_row]"
    by (simp add: be_with_profile_def be_signed_out_def alice_def alice_row_def)
  from h1 h2 existing_profile_resolution_idempotent [OF h1 h2]
  show ?thesis by blast
qed

text \<open>
  C10. When an auth notification carries a session and identity resolution fails, the
  listener stores the session, sets the current identity to null (so the login page is shown
  once loading is over), and neither calls \<^verbatim>\<open>signOut\<close> nor sets the login message: the
  message and the backend's session stay as they were. The startup sequence, in the same
  situation, does both.
\<close>

theorem listener_failed_resolution_keeps_session:
  assumes "result (resolveIdentity be (session_user sess)) = None"
  shows "currentUser (app (exec (onAuthStateChange (Some sess)) be st)) = None
       \<and> session (app (exec (onAuthStateChange (Some sess)) be st)) = Some sess
       \<and> loginMessage (app (exec (onAuthStateChange (Some sess)) be st)) = loginMessage st
       \<and> Called SignOut \<notin> set (trace (exec (onAuthStateChange (Some sess)) be st))
       \<and> (\<forall>m. Did (SetLoginMessage m)
               \<notin> set (trace (exec (onAuthStateChange (Some sess)) be st)))
       \<and> auth_session (remote (exec (onAuthStateChange (Some sess)) be st)) = auth_session be
       \<and> (\<not> isAuthLoading st \<and> \<not> needsDbSetup st \<longrightarrow>
            render False (app (exec (onAuthStateChange (Some sess)) be st))
              = LoginPage (loginMessage st))
       \<and> (probe_ok be \<and> auth_session be = Some sess \<longrightarrow>
            Called SignOut \<in> set (trace (useEffect_mount be st))
            \<and> Did (SetLoginMessage (Some profile_failed_message))
                \<in> set (trace (useEffect_mount be st)))"
  using assms
  by (simp add: listener_outcome resolve_no_signout resolve_no_setter resolve_auth_session
        render_def mount_unresolved)

theorem listener_failed_resolution_keeps_session_witness:
  "result (resolveIdentity be_insert_denied (session_user alice_session)) = None
   \<and> \<not> isAuthLoading (app (useEffect_mount be_signed_out initial_app))
   \<and> \<not> needsDbSetup (app (useEffect_mount be_signed_out initial_app))
   \<and> probe_ok be_insert_denied \<and> auth_session be_insert_denied = Some alice_session
   \<and> render False (app (exec (onAuthStateChange (Some alice_session)) be_insert_denied
        (app (useEffect_mount be_signed_out initial_app)))) = LoginPage None
   \<and> Called SignOut \<notin> set (trace (exec (onAuthStateChange (Some alice_session))
        be_insert_denied (app (useEffect_mount be_signed_out initial_app))))
   \<and> Called SignOut \<in> set (trace (useEffect_mount be_insert_denied
        (app (useEffect_mount be_signed_out initial_app))))"
proof -
  have h: "result (resolveIdentity be_insert_denied (session_user alice_session)) = None"
    by (simp add: alice_session_def resolve_be_insert_denied)
  have s: "auth_session be_insert_denied = Some alice_session"
    by (simp add: be_insert_denied_def be_signed_out_def)
  have p: "probe_ok be_insert_denied"
    by (rule probe_ok_concrete)
  have st: "app (useEffect_mount be_signed_out initial_app)
      = initial_app\<lparr>session := None, currentUser := None, isAuthLoading := False\<rparr>"
    by (simp add: mount_signed_out)
  have l: "\<not> isAuthLoading (app (useEffect_mount be_signed_out initial_app))"
    "\<not> needsDbSetup (app (useEffect_mount be_signed_out initial_app))"
    "loginMessage (app (useEffect_mount be_signed_out initial_app)) = None"
    unfolding st by (simp_all add: initial_app_def)
  from h s p l listener_failed_resolution_keeps_session [OF h,
      of "app (useEffect_mount be_signed_out initial_app)"]
  show ?thesis
    by metis
qed

section \<open>Properties of the dates\<close>

subsection \<open>Years\<close>
















subsection \<open>Months and days: \<^verbatim>\<open>MakeDay\<close> and back\<close>















subsection \<open>Digits\<close>







lemma number2:
  assumes "length cs = 2" "number_from 0 cs = Some n"
  shows "\<exists>a b. cs = [a, b] \<and> is_digit a \<and> is_digit b \<and> n = 10 * digit_val a + digit_val b"
proof -
  from assms(1) obtain a b where cs: "cs = [a, b]"
    by (auto simp: length_Suc_conv numeral_2_eq_2)
  with assms(2) show ?thesis
    by (auto split: if_splits)
qed

lemma number4:
  assumes "length cs = 4" "number_from 0 cs = Some n"
  shows "\<exists>a b c d. cs = [a, b, c, d] \<and> is_digit a \<and> is_digit b \<and> is_digit c \<and> is_digit d
      \<and> n = 10 * (10 * (10 * digit_val a + digit_val b) + digit_val c) + digit_val d"
proof -
  from assms(1) obtain a b c d where cs: "cs = [a, b, c, d]"
    by (auto simp: length_Suc_conv eval_nat_numeral)
  with assms(2) show ?thesis
    by (auto split: if_splits)
qed



subsection \<open>Parsing\<close>














section \<open>Properties of the aggregation engine\<close>

subsection \<open>Counts\<close>

lemma sum_record_invoice:
  "sum_list (map (invoiceCount \<circ> snd) (record_invoice k n t m))
     = sum_list (map (invoiceCount \<circ> snd) m) + 1"
  by (induction m) (auto simp: count_invoice_def)

lemma sum_report_maps:
  "sum_list (map (invoiceCount \<circ> snd) (fst (foldl (add_invoice tz) maps invoices)))
     = sum_list (map (invoiceCount \<circ> snd) (fst maps)) + length invoices"
  by (induction invoices arbitrary: maps) (simp_all add: add_invoice_def sum_record_invoice)

lemma sum_insert_sorted:
  "sum_list (map f (insert_sorted cmp x xs)) = f x + sum_list (map f xs)" for f :: "'a \<Rightarrow> nat"
  by (induction xs) auto

lemma sum_js_sort: "sum_list (map f (js_sort cmp xs)) = sum_list (map f xs)" for f :: "'a \<Rightarrow> nat"
  unfolding js_sort_def by (induction xs) (simp_all add: sum_insert_sorted)

text \<open>
  C8. For every list of invoices (and every viewer offset), the invoice counts of the daily
  rows add up to the number of invoices.
\<close>

theorem daily_invoice_counts_sum_to_total: "sum_list (map invoiceCount (dailyReports tz invoices)) = length invoices"
  by (simp add: dailyReports_def sum_js_sort report_maps_def comp_def to_row_def
      sum_report_maps [unfolded comp_def])

subsection \<open>Keys and sorting\<close>















subsection \<open>Order of the report rows\<close>





text \<open>
  C2. The claim: the customer counts read each issue date as a local calendar date, so that
  an invoice lands in the same day, month and year bucket whatever the viewer's offset from
  UTC. On the code the issue date is read by \<^verbatim>\<open>new Date(invoice.issueDate)\<close>, which is
  UTC midnight, and its local fields are compared. At 2025-01-01T12:00Z a viewer at UTC sees
  the invoice of 2025-01-01 in all three buckets; a viewer five hours behind UTC, for whom it
  is 07:00 on the same day, sees it in neither the month nor the year. At 20:00 of that
  viewer's 2025-01-01 the UTC day has changed and the invoice is not in the day bucket.
\<close>

theorem customer_counts_shift_with_utc_offset:
  "computeCustomerCounts 0 1735732800000 [sample_invoice ''2025-01-01'' ''A'']
     = \<lparr> today = 1, thisMonth = 1, thisYear = 1 \<rparr>
   \<and> computeCustomerCounts (- 300) 1735732800000 [sample_invoice ''2025-01-01'' ''A'']
     = \<lparr> today = 1, thisMonth = 0, thisYear = 0 \<rparr>
   \<and> computeCustomerCounts (- 300) 1735779600000 [sample_invoice ''2025-01-01'' ''A'']
     = \<lparr> today = 0, thisMonth = 0, thisYear = 0 \<rparr>"
  by code_simp

end
